theory Spec2Isabelle
  imports Main "HOL-Library.Word"
begin

section \<open>Capability registry (package lsp, capability queries)\<close>

text \<open>
  A Go \<^verbatim>\<open>interface{}\<close> that was decoded from the initialize response holds either
  nothing (the nil interface, \<open>None\<close> below) or a decoded value: a boolean, a string, a
  list or an options object.
\<close>

datatype any_value =
    AnyBool bool
  | AnyString string
  | AnyList "any_value list"
  | AnyObject "(string \<times> any_value) list"

text \<open>
  The \<^verbatim>\<open>Or_ServerCapabilities_*Provider\<close> structs all have the single field
  \<^verbatim>\<open>Value interface{}\<close>. The capability record holds a pointer to such a struct, so a
  provider has three states: no pointer, a pointer to a struct whose \<open>Value\<close> is nil, and
  a pointer to a struct with a value.
\<close>

record Or_Provider =
  Value :: "any_value option"

record SignatureHelpOptions =
  TriggerCharacters :: "string list"
  RetriggerCharacters :: "string list"

record CodeLensOptions =
  ResolveProvider :: bool

text \<open>The fields of \<^verbatim>\<open>protocol.ServerCapabilities\<close> that the queries read.\<close>

record ServerCapabilities =
  DefinitionProvider :: "Or_Provider option"
  ReferencesProvider :: "Or_Provider option"
  HoverProvider :: "Or_Provider option"
  DocumentSymbolProvider :: "Or_Provider option"
  CallHierarchyProvider :: "Or_Provider option"
  WorkspaceSymbolProvider :: "Or_Provider option"
  RenameProvider :: "any_value option"
  CodeActionProvider :: "any_value option"
  SignatureHelpProvider :: "SignatureHelpOptions option"
  CodeLensProvider :: "CodeLensOptions option"

text \<open>
  Every query takes \<^verbatim>\<open>caps *protocol.ServerCapabilities\<close>: \<open>None\<close> is the nil pointer.
  The Go conjunctions short-circuit, so \<open>Value\<close> is read only behind a non-nil pointer;
  the \<open>case\<close> below reads it only in the \<open>Some\<close> branch.
\<close>

definition HasDefinitionSupport :: "ServerCapabilities option \<Rightarrow> bool" where
  "HasDefinitionSupport caps =
     (case caps of
        None \<Rightarrow> False
      | Some c \<Rightarrow>
          (case DefinitionProvider c of None \<Rightarrow> False | Some d \<Rightarrow> Value d \<noteq> None) \<and>
          (case WorkspaceSymbolProvider c of None \<Rightarrow> False | Some w \<Rightarrow> Value w \<noteq> None))"

definition HasReferencesSupport :: "ServerCapabilities option \<Rightarrow> bool" where
  "HasReferencesSupport caps =
     (case caps of
        None \<Rightarrow> False
      | Some c \<Rightarrow> (case ReferencesProvider c of None \<Rightarrow> False | Some w \<Rightarrow> Value w \<noteq> None))"

definition HasHoverSupport :: "ServerCapabilities option \<Rightarrow> bool" where
  "HasHoverSupport caps =
     (case caps of
        None \<Rightarrow> False
      | Some c \<Rightarrow> (case HoverProvider c of None \<Rightarrow> False | Some w \<Rightarrow> Value w \<noteq> None))"

definition HasDocumentSymbolSupport :: "ServerCapabilities option \<Rightarrow> bool" where
  "HasDocumentSymbolSupport caps =
     (case caps of
        None \<Rightarrow> False
      | Some c \<Rightarrow> (case DocumentSymbolProvider c of None \<Rightarrow> False | Some w \<Rightarrow> Value w \<noteq> None))"

definition HasCallHierarchySupport :: "ServerCapabilities option \<Rightarrow> bool" where
  "HasCallHierarchySupport caps =
     (case caps of
        None \<Rightarrow> False
      | Some c \<Rightarrow> (case CallHierarchyProvider c of None \<Rightarrow> False | Some w \<Rightarrow> Value w \<noteq> None))"

definition HasWorkspaceSymbolSupport :: "ServerCapabilities option \<Rightarrow> bool" where
  "HasWorkspaceSymbolSupport caps =
     (case caps of
        None \<Rightarrow> False
      | Some c \<Rightarrow> (case WorkspaceSymbolProvider c of None \<Rightarrow> False | Some w \<Rightarrow> Value w \<noteq> None))"

definition HasRenameSupport :: "ServerCapabilities option \<Rightarrow> bool" where
  "HasRenameSupport caps =
     (case caps of None \<Rightarrow> False | Some c \<Rightarrow> RenameProvider c \<noteq> None)"

definition HasCodeActionSupport :: "ServerCapabilities option \<Rightarrow> bool" where
  "HasCodeActionSupport caps =
     (case caps of None \<Rightarrow> False | Some c \<Rightarrow> CodeActionProvider c \<noteq> None)"

definition HasSignatureHelpSupport :: "ServerCapabilities option \<Rightarrow> bool" where
  "HasSignatureHelpSupport caps =
     (case caps of None \<Rightarrow> False | Some c \<Rightarrow> SignatureHelpProvider c \<noteq> None)"

definition HasCodeLensSupport :: "ServerCapabilities option \<Rightarrow> bool" where
  "HasCodeLensSupport caps =
     (case caps of None \<Rightarrow> False | Some c \<Rightarrow> CodeLensProvider c \<noteq> None)"

definition AlwaysSupported :: bool where
  "AlwaysSupported = True"

text \<open>The zero value \<^verbatim>\<open>protocol.ServerCapabilities{}\<close>: every field nil.\<close>

definition emptyCapabilities :: ServerCapabilities where
  "emptyCapabilities =
     \<lparr> DefinitionProvider = None, ReferencesProvider = None, HoverProvider = None,
       DocumentSymbolProvider = None, CallHierarchyProvider = None,
       WorkspaceSymbolProvider = None, RenameProvider = None, CodeActionProvider = None,
       SignatureHelpProvider = None, CodeLensProvider = None \<rparr>"


section \<open>Strings (the functions of Go's \<^verbatim>\<open>strings\<close> package that the tools call)\<close>

text \<open>
  A Go string is a sequence of bytes; \<open>string\<close> is a list of 8-bit characters.
  \<^verbatim>\<open>len\<close> is \<open>length\<close>, a slice \<^verbatim>\<open>s[i:]\<close> is \<open>drop i s\<close> and \<^verbatim>\<open>s[:i]\<close> is \<open>take i s\<close>.
\<close>

definition HasPrefix :: "string \<Rightarrow> string \<Rightarrow> bool" where
  "HasPrefix s prefix = (length s \<ge> length prefix \<and> take (length prefix) s = prefix)"

definition HasSuffix :: "string \<Rightarrow> string \<Rightarrow> bool" where
  "HasSuffix s suffix =
     (length s \<ge> length suffix \<and> drop (length s - length suffix) s = suffix)"

definition TrimPrefix :: "string \<Rightarrow> string \<Rightarrow> string" where
  "TrimPrefix s prefix = (if HasPrefix s prefix then drop (length prefix) s else s)"

fun Contains :: "string \<Rightarrow> string \<Rightarrow> bool" where
  "Contains [] substr = (substr = [])"
| "Contains (c # cs) substr = (HasPrefix (c # cs) substr \<or> Contains cs substr)"

text \<open>
  \<^verbatim>\<open>strings.ContainsAny(s, chars)\<close>: some code point of \<open>chars\<close> occurs in \<open>s\<close>. The
  tools call it with the ASCII characters \<^verbatim>\<open>".:"\<close> only; an ASCII byte never occurs
  inside a multi-byte UTF-8 sequence, so the test is a test on bytes.
\<close>

definition ContainsAny :: "string \<Rightarrow> string \<Rightarrow> bool" where
  "ContainsAny s chars = list_ex (\<lambda>c. c \<in> set chars) s"

text \<open>
  \<^verbatim>\<open>strings.Split(s, sep)\<close> cuts \<open>s\<close> at every occurrence of \<open>sep\<close>, found from the left
  and not overlapping; \<open>acc\<close> holds the current piece in reverse. The result is never
  empty. (For the empty separator Go splits after each UTF-8 sequence; the tools never
  pass it, and the model splits after each byte.)
\<close>

fun splitAt :: "string \<Rightarrow> string \<Rightarrow> string \<Rightarrow> string list" where
  "splitAt sep acc [] = [rev acc]"
| "splitAt sep acc (c # cs) =
     (if sep \<noteq> [] \<and> HasPrefix (c # cs) sep
      then rev acc # splitAt sep [] (drop (length sep) (c # cs))
      else splitAt sep (c # acc) cs)"

definition Split :: "string \<Rightarrow> string \<Rightarrow> string list" where
  "Split s sep = (if sep = [] then map (\<lambda>c. [c]) s else splitAt sep [] s)"

text \<open>
  \<^verbatim>\<open>strings.EqualFold\<close> compares under Unicode simple case folding. The symbol matcher
  takes it as a parameter, so what is proved about the matcher holds for the library
  function; \<open>asciiEqualFold\<close> is its behaviour on ASCII text, used to run examples.
\<close>

definition toLowerASCII :: "char \<Rightarrow> char" where
  "toLowerASCII c =
     (if (65::nat) \<le> of_char c \<and> (of_char c :: nat) \<le> 90
      then char_of ((of_char c :: nat) + 32) else c)"

definition asciiEqualFold :: "string \<Rightarrow> string \<Rightarrow> bool" where
  "asciiEqualFold s t = (map toLowerASCII s = map toLowerASCII t)"

text \<open>
  \<^verbatim>\<open>fmt.Sprintf("%d", n)\<close> for a non-negative \<open>n\<close>: the decimal digits, most significant
  first, no leading zero.
\<close>

definition digitChar :: "nat \<Rightarrow> char" where
  "digitChar d = char_of (48 + d)"

function formatDecimal :: "nat \<Rightarrow> string" where
  "formatDecimal n =
     (if n < 10 then [digitChar n] else formatDecimal (n div 10) @ [digitChar (n mod 10)])"
  by pat_completeness auto
termination
  by (relation "measure id") auto

declare formatDecimal.simps [simp del]

definition newline :: string where
  "newline = [CHR 0x0A]"

section \<open>Protocol data (package protocol)\<close>

text \<open>
  The declarations of package protocol are not among the sources. The types below hold the
  fields that the tools read and write, at the types the tools use them: lines and
  characters are \<^verbatim>\<open>uint32\<close>, a URI is a string.
\<close>

type_synonym uint32 = "32 word"

text \<open>
  Go's \<^verbatim>\<open>int\<close> on a 64-bit platform: a 64-bit two's complement integer, read with
  \<open>sint\<close>. The conversion \<^verbatim>\<open>uint32(x)\<close> keeps the low 32 bits (\<open>ucast\<close>).
\<close>

type_synonym go_int = "64 word"

type_synonym DocumentUri = string

record Position =
  Line :: uint32
  Character :: uint32

record Range =
  Start :: Position
  End :: Position

record Location =
  URI :: DocumentUri
  Range :: Range

datatype TextDocumentIdentifier = TextDocumentIdentifier (docURI: DocumentUri)

record TextDocumentPositionParams =
  TextDocument :: TextDocumentIdentifier
  Position :: Position

type_synonym SymbolKind = uint32

text \<open>
  Modelled from the spec: the constants of \<^verbatim>\<open>protocol.SymbolKind\<close> are declared in
  package protocol, which is not among the sources. The spec names the kinds the matcher
  tests (method, function, class, struct, interface, enum, variable, constant); they are
  distinct values of the integer type, given here the numbers the Language Server
  Protocol assigns to them.
\<close>

definition Class :: SymbolKind where "Class = 5"
definition Method :: SymbolKind where "Method = 6"
definition Enum :: SymbolKind where "Enum = 10"
definition Interface :: SymbolKind where "Interface = 11"
definition Function :: SymbolKind where "Function = 12"
definition Variable :: SymbolKind where "Variable = 13"
definition Constant :: SymbolKind where "Constant = 14"
definition Struct :: SymbolKind where "Struct = 23"

section \<open>Symbol matching (package tools, \<^verbatim>\<open>symbolMatches\<close>)\<close>

definition symbolMatches ::
  "(string \<Rightarrow> string \<Rightarrow> bool) \<Rightarrow> string \<Rightarrow> string \<Rightarrow> SymbolKind \<Rightarrow> string \<Rightarrow> bool" where
  "symbolMatches equalFold query symbolName symbolKind containerName =
     (if symbolName = query then True
      else if ContainsAny query ''.:'' then symbolName = query
      else if HasSuffix symbolName (''::'' @ query) \<or> HasSuffix symbolName (''.'' @ query)
        then True
      else if (symbolKind = Method \<or> symbolKind = Function) \<and>
              (symbolName = query \<and> containerName \<noteq> []) then True
      else if (symbolKind = Class \<or> symbolKind = Struct \<or>
               symbolKind = Interface \<or> symbolKind = Enum) \<and>
              equalFold symbolName query then True
      else if (symbolKind = Class \<or> symbolKind = Struct \<or>
               symbolKind = Interface \<or> symbolKind = Enum) \<and>
              Contains symbolName query then True
      else if (symbolKind = Variable \<or> symbolKind = Constant) \<and>
              (let parts = Split symbolName ''::''
               in length parts > 1 \<and> parts ! (length parts - 1) = query) then True
      else False)"

section \<open>Errors and the client\<close>

text \<open>A Go \<^verbatim>\<open>error\<close> value, known by its message.\<close>

datatype error = Error (message: string)

text \<open>\<^verbatim>\<open>%d\<close> of a signed integer.\<close>

definition formatInt :: "int \<Rightarrow> string" where
  "formatInt n = (if n < 0 then ''-'' @ formatDecimal (nat (- n)) else formatDecimal (nat n))"

fun Join :: "string list \<Rightarrow> string \<Rightarrow> string" where
  "Join [] sep = []"
| "Join [x] sep = x"
| "Join (x # y # ys) sep = x @ sep @ Join (y # ys) sep"

datatype CallHierarchyItem =
  CallHierarchyItem (Name: string) (Detail: string) (ItemURI: DocumentUri) (ItemRange: Range)

datatype CallHierarchyIncomingCall =
  CallHierarchyIncomingCall (From: CallHierarchyItem) (FromRanges: "Range list")

datatype CallHierarchyOutgoingCall =
  CallHierarchyOutgoingCall (To: CallHierarchyItem) (OutFromRanges: "Range list")

text \<open>
  A workspace symbol result is an interface value with \<^verbatim>\<open>GetName\<close> and
  \<^verbatim>\<open>GetLocation\<close>; the tools distinguish \<^verbatim>\<open>*protocol.SymbolInformation\<close>, which
  carries a kind and a container name, from any other implementation.
\<close>

datatype WorkspaceSymbolResult =
    SymbolInformation (SymName: string) (SymKind: SymbolKind) (ContainerName: string)
      (SymLocation: Location)
  | OtherSymbol (OtherName: string) (OtherLocation: Location)

fun GetName :: "WorkspaceSymbolResult \<Rightarrow> string" where
  "GetName (SymbolInformation n k c l) = n"
| "GetName (OtherSymbol n l) = n"

fun GetLocation :: "WorkspaceSymbolResult \<Rightarrow> Location" where
  "GetLocation (SymbolInformation n k c l) = l"
| "GetLocation (OtherSymbol n l) = l"

text \<open>
  The value returned by \<^verbatim>\<open>client.Symbol\<close> is known by what its method \<^verbatim>\<open>Results()\<close>
  returns: the decoded symbols, or an error.
\<close>

datatype Or_Result_workspace_symbol =
  Or_Result_workspace_symbol (Results: "error + WorkspaceSymbolResult list")

record DefinitionLink =
  TargetURI :: DocumentUri
  TargetRange :: Range

text \<open>
  \<^verbatim>\<open>protocol.Definition\<close> is an \<^verbatim>\<open>Or_Definition\<close>: its value is a location, a list of
  locations, or something else. The value of a definition result is nil, a
  \<^verbatim>\<open>Definition\<close>, a list of links, or something else.
\<close>

datatype Or_Definition = OneLocation Location | ManyLocations "Location list" | OtherDefinition

datatype definition_value =
    DefinitionValue Or_Definition
  | DefinitionLinks "DefinitionLink list"
  | OtherValue

datatype Or_Result_textDocument_definition =
  Or_Result_textDocument_definition (ResultValue: "definition_value option")

text \<open>
  The client and its collaborators. Each call may change the state \<open>'s\<close> of the client
  and of the server behind it (open files, what the server answers next), so each takes
  the state and returns the new one. The pure helpers that are not among the sources are
  fields as well: \<^verbatim>\<open>DocumentUri.Path\<close>, the table \<^verbatim>\<open>protocol.TableKindMap\<close>,
  \<^verbatim>\<open>addLineNumbers\<close> and \<^verbatim>\<open>strings.EqualFold\<close>. \<^verbatim>\<open>GetFullDefinition\<close> returns the
  text of the definition, its final location and an error or nil. \<open>SprintfVerbs\<close> is
  what \<^verbatim>\<open>fmt.Sprintf\<close> makes of a definition header whose format string holds further
  percent signs (see \<open>locationInfo\<close> below).
\<close>

record 's Client =
  OpenFile :: "string \<Rightarrow> 's \<Rightarrow> error option \<times> 's"
  Symbol :: "string \<Rightarrow> 's \<Rightarrow> (error + Or_Result_workspace_symbol) \<times> 's"
  Definition ::
    "TextDocumentPositionParams \<Rightarrow> 's \<Rightarrow> (error + Or_Result_textDocument_definition) \<times> 's"
  GetFullDefinition :: "Location \<Rightarrow> 's \<Rightarrow> (string \<times> Location \<times> error option) \<times> 's"
  PrepareCallHierarchy ::
    "TextDocumentPositionParams \<Rightarrow> 's \<Rightarrow> (error + CallHierarchyItem list) \<times> 's"
  IncomingCalls :: "CallHierarchyItem \<Rightarrow> 's \<Rightarrow> (error + CallHierarchyIncomingCall list) \<times> 's"
  OutgoingCalls :: "CallHierarchyItem \<Rightarrow> 's \<Rightarrow> (error + CallHierarchyOutgoingCall list) \<times> 's"
  UriPath :: "DocumentUri \<Rightarrow> string"
  TableKindMap :: "SymbolKind \<Rightarrow> string"
  addLineNumbers :: "string \<Rightarrow> int \<Rightarrow> string"
  EqualFold :: "string \<Rightarrow> string \<Rightarrow> bool"
  SprintfVerbs :: "string \<Rightarrow> string \<Rightarrow> string \<Rightarrow> Location \<Rightarrow> string"

section \<open>Requests built from 1-indexed positions (package tools)\<close>

text \<open>
  The four tools take \<^verbatim>\<open>line, column int\<close> and build the wire position with
  \<^verbatim>\<open>uint32(line - 1)\<close> and \<^verbatim>\<open>uint32(column - 1)\<close>.
\<close>

definition GetCallHierarchy_params :: "string \<Rightarrow> go_int \<Rightarrow> go_int \<Rightarrow> TextDocumentPositionParams" where
  "GetCallHierarchy_params filePath line column =
     \<lparr> TextDocument = TextDocumentIdentifier (''file://'' @ filePath),
       Position = \<lparr> Line = ucast (line - 1), Character = ucast (column - 1) \<rparr> \<rparr>"

definition GetSignatureHelp_params :: "string \<Rightarrow> go_int \<Rightarrow> go_int \<Rightarrow> TextDocumentPositionParams" where
  "GetSignatureHelp_params filePath line column =
     (let position = \<lparr> Line = ucast (line - 1), Character = ucast (column - 1) \<rparr>;
          uri = ''file://'' @ filePath
      in \<lparr> TextDocument = TextDocumentIdentifier uri, Position = position \<rparr>)"

definition GetCompletions_params :: "string \<Rightarrow> go_int \<Rightarrow> go_int \<Rightarrow> TextDocumentPositionParams" where
  "GetCompletions_params filePath line column =
     (let position = \<lparr> Line = ucast (line - 1), Character = ucast (column - 1) \<rparr>;
          uri = ''file://'' @ filePath
      in \<lparr> TextDocument = TextDocumentIdentifier uri, Position = position \<rparr>)"

definition GetCodeActions_range :: "go_int \<Rightarrow> go_int \<Rightarrow> go_int \<Rightarrow> go_int \<Rightarrow> Range" where
  "GetCodeActions_range startLine startColumn endLine endColumn =
     \<lparr> Start = \<lparr> Line = ucast (startLine - 1), Character = ucast (startColumn - 1) \<rparr>,
       End = \<lparr> Line = ucast (endLine - 1), Character = ucast (endColumn - 1) \<rparr> \<rparr>"

section \<open>Call hierarchy (package tools, \<^verbatim>\<open>GetCallHierarchy\<close>)\<close>

text \<open>The slice \<^verbatim>\<open>ranges\<close> built from \<^verbatim>\<open>call.FromRanges\<close>.\<close>

definition callSiteLabels :: "Range list \<Rightarrow> string list" where
  "callSiteLabels rs =
     map (\<lambda>r. ''L'' @ formatDecimal (unat (Line (Start r) + 1)) @
              '':C'' @ formatDecimal (unat (Character (Start r) + 1))) rs"

text \<open>The loop over the incoming calls; \<open>i\<close> is the loop index.\<close>

fun formatIncomingCalls :: "nat \<Rightarrow> CallHierarchyIncomingCall list \<Rightarrow> string" where
  "formatIncomingCalls i [] = []"
| "formatIncomingCalls i (call # calls) =
     (let callerFile = TrimPrefix (ItemURI (From call)) ''file://'';
          callerLine = Line (Start (ItemRange (From call))) + 1
      in formatDecimal (i + 1) @ ''. '' @ Name (From call) @
         (if Detail (From call) \<noteq> [] then '' ('' @ Detail (From call) @ '')'' else []) @
         '' at '' @ callerFile @ '':'' @ formatDecimal (unat callerLine) @ newline @
         (if length (FromRanges call) > 0
          then ''   Call sites: '' @ Join (callSiteLabels (FromRanges call)) '', '' @ newline
          else []) @
         formatIncomingCalls (i + 1) calls)"

fun formatOutgoingCalls :: "nat \<Rightarrow> CallHierarchyOutgoingCall list \<Rightarrow> string" where
  "formatOutgoingCalls i [] = []"
| "formatOutgoingCalls i (call # calls) =
     (let calleeFile = TrimPrefix (ItemURI (To call)) ''file://'';
          calleeLine = Line (Start (ItemRange (To call))) + 1
      in formatDecimal (i + 1) @ ''. '' @ Name (To call) @
         (if Detail (To call) \<noteq> [] then '' ('' @ Detail (To call) @ '')'' else []) @
         '' at '' @ calleeFile @ '':'' @ formatDecimal (unat calleeLine) @ newline @
         (if length (OutFromRanges call) > 0
          then ''   Called at: '' @ Join (callSiteLabels (OutFromRanges call)) '', '' @ newline
          else []) @
         formatOutgoingCalls (i + 1) calls)"

text \<open>The header line written for the item the hierarchy is rooted at.\<close>

definition callHierarchyHeader :: "string \<Rightarrow> CallHierarchyItem \<Rightarrow> string" where
  "callHierarchyHeader title item =
     title @ Name item @
     (if Detail item \<noteq> [] then '' ('' @ Detail item @ '')'' else []) @
     '' at '' @ TrimPrefix (ItemURI item) ''file://'' @ '':'' @
     formatDecimal (unat (Line (Start (ItemRange item)) + 1)) @ newline @ newline"

definition GetCallHierarchy ::
  "'s Client \<Rightarrow> string \<Rightarrow> go_int \<Rightarrow> go_int \<Rightarrow> string \<Rightarrow> 's \<Rightarrow> (error + string) \<times> 's" where
  "GetCallHierarchy client filePath line column direction \<sigma> =
     (if direction \<noteq> ''incoming'' \<and> direction \<noteq> ''outgoing''
      then (Inl (Error (''direction must be 'incoming' or 'outgoing', got: '' @ direction)), \<sigma>)
      else
        (case OpenFile client filePath \<sigma> of
           (Some err, \<sigma>1) \<Rightarrow> (Inl (Error (''failed to open file: '' @ message err)), \<sigma>1)
         | (None, \<sigma>1) \<Rightarrow>
        (case PrepareCallHierarchy client (GetCallHierarchy_params filePath line column) \<sigma>1 of
           (Inl err, \<sigma>2) \<Rightarrow>
             (Inl (Error (''failed to prepare call hierarchy: '' @ message err)), \<sigma>2)
         | (Inr [], \<sigma>2) \<Rightarrow>
             (Inr (''No symbol found at '' @ filePath @ '':'' @ formatInt (sint line) @
                   '':'' @ formatInt (sint column)), \<sigma>2)
         | (Inr (item # _), \<sigma>2) \<Rightarrow>
             (if direction = ''incoming''
              then
                (case IncomingCalls client item \<sigma>2 of
                   (Inl err, \<sigma>3) \<Rightarrow>
                     (Inl (Error (''failed to get incoming calls: '' @ message err)), \<sigma>3)
                 | (Inr incomingCalls, \<sigma>3) \<Rightarrow>
                     (Inr (callHierarchyHeader ''Incoming calls to: '' item @
                           (if length incomingCalls = 0
                            then ''No incoming calls found'' @ newline
                            else formatIncomingCalls 0 incomingCalls)), \<sigma>3))
              else
                (case OutgoingCalls client item \<sigma>2 of
                   (Inl err, \<sigma>3) \<Rightarrow>
                     (Inl (Error (''failed to get outgoing calls: '' @ message err)), \<sigma>3)
                 | (Inr outgoingCalls, \<sigma>3) \<Rightarrow>
                     (Inr (callHierarchyHeader ''Outgoing calls from: '' item @
                           (if length outgoingCalls = 0
                            then ''No outgoing calls found'' @ newline
                            else formatOutgoingCalls 0 outgoingCalls)), \<sigma>3))))))"

section \<open>Document symbols (package tools, the two formatters)\<close>

datatype DocumentSymbol =
  DocumentSymbol (DsName: string) (DsDetail: string) (DsKind: SymbolKind) (DsRange: Range)
    (Children: "DocumentSymbol list")

text \<open>
  \<^verbatim>\<open>strings.Repeat\<close>, and the three glyphs of the outline as their UTF-8 bytes: the
  vertical bar with three spaces, the branch with a space, and the bullet.
\<close>

definition Repeat :: "string \<Rightarrow> nat \<Rightarrow> string" where
  "Repeat s count = concat (replicate count s)"

definition barIndent :: string where
  "barIndent = [CHR 0xE2, CHR 0x94, CHR 0x82] @ ''   ''"

definition branchIndent :: string where
  "branchIndent =
     [CHR 0xE2, CHR 0x94, CHR 0x9C, CHR 0xE2, CHR 0x94, CHR 0x80, CHR 0xE2, CHR 0x94, CHR 0x80]
     @ '' ''"

definition bullet :: string where
  "bullet = [CHR 0xE2, CHR 0x80, CHR 0xA2] @ '' ''"

fun formatDocumentSymbol :: "(SymbolKind \<Rightarrow> string) \<Rightarrow> DocumentSymbol \<Rightarrow> nat \<Rightarrow> string" where
  "formatDocumentSymbol kindMap (DocumentSymbol name detail kind rng children) depth =
     (let indent = (if depth > 0 then Repeat barIndent (depth - 1) @ branchIndent
                    else Repeat barIndent depth);
          kindStr = kindMap kind;
          startLine = Line (Start rng) + 1;
          endLine = Line (End rng) + 1
      in indent @ kindStr @ '' '' @ name @
         (if detail \<noteq> [] then '' ('' @ detail @ '')'' else []) @
         '' ['' @ formatDecimal (unat startLine) @ '':'' @
         formatDecimal (unat (Character (Start rng) + 1)) @ ''-'' @
         formatDecimal (unat endLine) @ '':'' @
         formatDecimal (unat (Character (End rng) + 1)) @ '']'' @ newline @
         concat (map (\<lambda>child. formatDocumentSymbol kindMap child (depth + 1)) children))"

definition formatSymbolInformation ::
  "(SymbolKind \<Rightarrow> string) \<Rightarrow> WorkspaceSymbolResult \<Rightarrow> string" where
  "formatSymbolInformation kindMap symbol =
     (let kindStr = kindMap (SymKind symbol);
          startLine = Line (Start (Range (SymLocation symbol))) + 1;
          endLine = Line (End (Range (SymLocation symbol))) + 1
      in bullet @ kindStr @ '' '' @ SymName symbol @
         (if ContainerName symbol \<noteq> [] then '' (in '' @ ContainerName symbol @ '')'' else []) @
         '' ['' @ formatDecimal (unat startLine) @ '':'' @
         formatDecimal (unat (Character (Start (Range (SymLocation symbol))) + 1)) @ ''-'' @
         formatDecimal (unat endLine) @ '':'' @
         formatDecimal (unat (Character (End (Range (SymLocation symbol))) + 1)) @ '']'' @
         newline)"

section \<open>Definition lookup (package tools, \<^verbatim>\<open>ReadDefinition\<close>)\<close>

text \<open>
  The errors of \<^verbatim>\<open>extractDefinitionLocations\<close> end in the Go type name of the value
  (\<^verbatim>\<open>%T\<close>), which the model leaves out; the caller only logs the error.
\<close>

fun extractDefinitionLocations :: "Or_Result_textDocument_definition \<Rightarrow> error + Location list" where
  "extractDefinitionLocations (Or_Result_textDocument_definition None) =
     Inl (Error ''no definition found'')"
| "extractDefinitionLocations (Or_Result_textDocument_definition (Some (DefinitionValue (OneLocation def)))) =
     Inr [def]"
| "extractDefinitionLocations (Or_Result_textDocument_definition (Some (DefinitionValue (ManyLocations def)))) =
     Inr def"
| "extractDefinitionLocations (Or_Result_textDocument_definition (Some (DefinitionValue OtherDefinition))) =
     Inl (Error ''unexpected Definition type: '')"
| "extractDefinitionLocations (Or_Result_textDocument_definition (Some (DefinitionLinks v))) =
     Inr (map (\<lambda>link. \<lparr> URI = TargetURI link, Range = TargetRange link \<rparr>) v)"
| "extractDefinitionLocations (Or_Result_textDocument_definition (Some OtherValue)) =
     Inl (Error ''unexpected definition result type: '')"

text \<open>\<^verbatim>\<open>fmt.Sprintf("%s:%d:%d", defLoc.URI, defLoc.Range.Start.Line, defLoc.Range.Start.Character)\<close>\<close>

definition locationKey :: "Location \<Rightarrow> string" where
  "locationKey defLoc =
     URI defLoc @ '':'' @ formatDecimal (unat (Line (Start (Range defLoc)))) @ '':'' @
     formatDecimal (unat (Character (Start (Range defLoc))))"

text \<open>
  The strings \<^verbatim>\<open>kind\<close> and \<^verbatim>\<open>container\<close> that the loop body computes for a symbol, and
  the test it applies to the symbol.
\<close>

fun symbolKindText :: "'s Client \<Rightarrow> WorkspaceSymbolResult \<Rightarrow> string" where
  "symbolKindText client (SymbolInformation n k cn l) =
     ''Kind: '' @ TableKindMap client k @ newline"
| "symbolKindText client (OtherSymbol n l) = []"

fun symbolContainerText :: "WorkspaceSymbolResult \<Rightarrow> string" where
  "symbolContainerText (SymbolInformation n k cn l) =
     (if cn \<noteq> [] then ''Container Name: '' @ cn @ newline else [])"
| "symbolContainerText (OtherSymbol n l) = []"

fun candidateMatches :: "'s Client \<Rightarrow> string \<Rightarrow> WorkspaceSymbolResult \<Rightarrow> bool" where
  "candidateMatches client symbolName (SymbolInformation n k cn l) =
     symbolMatches (EqualFold client) symbolName (GetName (SymbolInformation n k cn l)) k cn"
| "candidateMatches client symbolName (OtherSymbol n l) =
     symbolMatches (EqualFold client) symbolName (GetName (OtherSymbol n l)) 0 []"

text \<open>
  The header of one definition. The source passes
  \<^verbatim>\<open>"Symbol: %s\nFile: %s\n" + kind + container + "Range: L%d:C%d - L%d:C%d\n\n"\<close> to
  \<^verbatim>\<open>fmt.Sprintf\<close> as the format, so \<open>kind\<close> and \<open>container\<close> are part of the format
  string: they are copied unchanged when they contain no percent sign. What Sprintf makes
  of the format otherwise is the parameter \<open>sprintfVerbs\<close>, the client's \<open>SprintfVerbs\<close>.
\<close>

definition locationInfo ::
  "(string \<Rightarrow> string \<Rightarrow> string \<Rightarrow> Location \<Rightarrow> string) \<Rightarrow>
   string \<Rightarrow> string \<Rightarrow> string \<Rightarrow> Location \<Rightarrow> string" where
  "locationInfo sprintfVerbs name kind container finalLoc =
     (if CHR ''%'' \<in> set kind \<or> CHR ''%'' \<in> set container
      then sprintfVerbs name kind container finalLoc
      else
        ''Symbol: '' @ name @ newline @
        ''File: '' @ TrimPrefix (URI finalLoc) ''file://'' @ newline @
        kind @ container @
        ''Range: L'' @ formatDecimal (unat (Line (Start (Range finalLoc)) + 1)) @
        '':C'' @ formatDecimal (unat (Character (Start (Range finalLoc)) + 1)) @
        '' - L'' @ formatDecimal (unat (Line (End (Range finalLoc)) + 1)) @
        '':C'' @ formatDecimal (unat (Character (End (Range finalLoc)) + 1)) @
        newline @ newline)"

text \<open>
  The state of the two loops: the slice \<^verbatim>\<open>definitions\<close>, the map \<^verbatim>\<open>seenLocations\<close>
  (a Go \<^verbatim>\<open>map[string]bool\<close> reads false at a missing key, so it is a function to
  \<open>bool\<close>), and the state of the client. Each element of \<open>definitions\<close> is kept together
  with the location key it was produced for, so that the entries of a location can be
  counted; the tool's output joins the texts only.
\<close>

type_synonym 's resolve_state = "(string \<times> string) list \<times> (string \<Rightarrow> bool) \<times> 's"

text \<open>
  One round of the inner loop, over one \<open>defLoc\<close>. The location is marked as seen before
  its file is opened and its text fetched; either failure skips it.
\<close>

definition processDefLocation ::
  "'s Client \<Rightarrow> WorkspaceSymbolResult \<Rightarrow> string \<Rightarrow> string \<Rightarrow> Location \<Rightarrow>
   's resolve_state \<Rightarrow> 's resolve_state" where
  "processDefLocation client symbol kind container defLoc st =
     (case st of (definitions, seenLocations, \<sigma>) \<Rightarrow>
        if seenLocations (locationKey defLoc) then (definitions, seenLocations, \<sigma>)
        else
          (case OpenFile client (UriPath client (URI defLoc)) \<sigma> of
             (Some err, \<sigma>1) \<Rightarrow> (definitions, seenLocations (locationKey defLoc := True), \<sigma>1)
           | (None, \<sigma>1) \<Rightarrow>
               (case GetFullDefinition client defLoc \<sigma>1 of
                  ((definition, finalLoc, Some err), \<sigma>2) \<Rightarrow>
                    (definitions, seenLocations (locationKey defLoc := True), \<sigma>2)
                | ((definition, finalLoc, None), \<sigma>2) \<Rightarrow>
                    (definitions @
                       [(locationKey defLoc,
                         ''---'' @ newline @ newline @
                         locationInfo (SprintfVerbs client) (GetName symbol) kind container
                           finalLoc @
                         addLineNumbers client definition
                           (uint (Line (Start (Range finalLoc))) + 1) @
                         newline)],
                     seenLocations (locationKey defLoc := True), \<sigma>2))))"

text \<open>
  The first half of the outer loop body: the filter, opening the symbol's file, the
  definition request and the extraction of its locations. \<open>None\<close> is a \<^verbatim>\<open>continue\<close>.
\<close>

definition candidateLocations ::
  "'s Client \<Rightarrow> string \<Rightarrow> WorkspaceSymbolResult \<Rightarrow> 's \<Rightarrow> Location list option \<times> 's" where
  "candidateLocations client symbolName symbol \<sigma> =
     (if \<not> candidateMatches client symbolName symbol then (None, \<sigma>)
      else
        (let loc = GetLocation symbol in
         case OpenFile client (UriPath client (URI loc)) \<sigma> of
           (Some err, \<sigma>1) \<Rightarrow> (None, \<sigma>1)
         | (None, \<sigma>1) \<Rightarrow>
             (case Definition client
                     \<lparr> TextDocument = TextDocumentIdentifier (URI loc),
                       Position = Start (Range loc) \<rparr> \<sigma>1 of
                (Inl err, \<sigma>2) \<Rightarrow> (None, \<sigma>2)
              | (Inr defResult, \<sigma>2) \<Rightarrow>
                  (case extractDefinitionLocations defResult of
                     Inl err \<Rightarrow> (None, \<sigma>2)
                   | Inr defLocations \<Rightarrow> (Some defLocations, \<sigma>2)))))"

text \<open>One round of the outer loop, over one symbol of the search results.\<close>

definition processSymbol ::
  "'s Client \<Rightarrow> string \<Rightarrow> WorkspaceSymbolResult \<Rightarrow> 's resolve_state \<Rightarrow> 's resolve_state" where
  "processSymbol client symbolName symbol st =
     (case st of (definitions, seenLocations, \<sigma>) \<Rightarrow>
        (case candidateLocations client symbolName symbol \<sigma> of
           (None, \<sigma>') \<Rightarrow> (definitions, seenLocations, \<sigma>')
         | (Some defLocations, \<sigma>') \<Rightarrow>
             fold (processDefLocation client symbol
                     (symbolKindText client symbol) (symbolContainerText symbol))
               defLocations (definitions, seenLocations, \<sigma>')))"






text \<open>
  Whether the inner loop, meeting \<open>defLoc\<close> with the client in state \<open>\<sigma>\<close>, gets past
  both \<^verbatim>\<open>continue\<close> statements: the file opens and the text of the definition is
  fetched.
\<close>

definition fetchSucceeds :: "'s Client \<Rightarrow> Location \<Rightarrow> 's \<Rightarrow> bool" where
  "fetchSucceeds client defLoc \<sigma> =
     (case OpenFile client (UriPath client (URI defLoc)) \<sigma> of
        (Some err, \<sigma>1) \<Rightarrow> False
      | (None, \<sigma>1) \<Rightarrow>
          (case GetFullDefinition client defLoc \<sigma>1 of
             ((definition, finalLoc, Some err), \<sigma>2) \<Rightarrow> False
           | ((definition, finalLoc, None), \<sigma>2) \<Rightarrow> True))"

text \<open>
  The fetches of a run, in order: the inner loop tries to fetch a location when its key
  is not yet in \<^verbatim>\<open>seenLocations\<close>. Each fetch is recorded with the key and with its
  outcome in the state of the client at that moment.
\<close>

fun locationFetches ::
  "'s Client \<Rightarrow> WorkspaceSymbolResult \<Rightarrow> string \<Rightarrow> string \<Rightarrow> Location list \<Rightarrow>
   's resolve_state \<Rightarrow> (string \<times> bool) list" where
  "locationFetches client symbol kind container [] st = []"
| "locationFetches client symbol kind container (defLoc # rest) st =
     (if fst (snd st) (locationKey defLoc) then []
      else [(locationKey defLoc, fetchSucceeds client defLoc (snd (snd st)))]) @
     locationFetches client symbol kind container rest
       (processDefLocation client symbol kind container defLoc st)"

fun definitionFetches ::
  "'s Client \<Rightarrow> string \<Rightarrow> WorkspaceSymbolResult list \<Rightarrow> 's resolve_state \<Rightarrow>
   (string \<times> bool) list" where
  "definitionFetches client symbolName [] st = []"
| "definitionFetches client symbolName (symbol # rest) st =
     (case candidateLocations client symbolName symbol (snd (snd st)) of
        (None, \<sigma>') \<Rightarrow> []
      | (Some defLocations, \<sigma>') \<Rightarrow>
          locationFetches client symbol (symbolKindText client symbol)
            (symbolContainerText symbol) defLocations (fst st, fst (snd st), \<sigma>')) @
     definitionFetches client symbolName rest (processSymbol client symbolName symbol st)"

definition runDefinitionFetches ::
  "'s Client \<Rightarrow> string \<Rightarrow> WorkspaceSymbolResult list \<Rightarrow> 's \<Rightarrow> (string \<times> bool) list" where
  "runDefinitionFetches client symbolName results \<sigma> =
     definitionFetches client symbolName results ([], (\<lambda>k. False), \<sigma>)"

text \<open>
  The first occurrences of a list of keys, in order: a key is kept where it occurs for the
  first time and is not marked already.
\<close>

fun unseenKeys :: "(string \<Rightarrow> bool) \<Rightarrow> string list \<Rightarrow> string list" where
  "unseenKeys seen [] = []"
| "unseenKeys seen (k # ks) =
     (if seen k then unseenKeys seen ks else k # unseenKeys (seen (k := True)) ks)"

definition firstOccurrences :: "string list \<Rightarrow> string list" where
  "firstOccurrences ks = unseenKeys (\<lambda>k. False) ks"

section \<open>One-indexed and zero-indexed coordinates\<close>

text \<open>
  The words of the specification, to compare the code with: a one-indexed line or column
  that fits the wire type, a wire value below the largest \<^verbatim>\<open>uint32\<close>, and the decimal
  numeral of a wire value with 1 added back.
\<close>

definition oneIndexed :: "go_int \<Rightarrow> bool" where
  "oneIndexed n = (1 \<le> sint n \<and> sint n \<le> 4294967296)"

definition belowMax :: "uint32 \<Rightarrow> bool" where
  "belowMax x = (unat x < 4294967295)"

definition positionBelowMax :: "Position \<Rightarrow> bool" where
  "positionBelowMax p = (belowMax (Line p) \<and> belowMax (Character p))"

definition rangeBelowMax :: "Range \<Rightarrow> bool" where
  "rangeBelowMax r = (positionBelowMax (Start r) \<and> positionBelowMax (End r))"

definition oneBased :: "uint32 \<Rightarrow> string" where
  "oneBased x = formatDecimal (unat x + 1)"

text \<open>The label of a call site, \<^verbatim>\<open>L<line>:C<column>\<close>, in one-indexed coordinates.\<close>

definition oneBasedLabel :: "Range \<Rightarrow> string" where
  "oneBasedLabel r = ''L'' @ oneBased (Line (Start r)) @ '':C'' @ oneBased (Character (Start r))"

text \<open>A range as the two symbol formatters print it, in one-indexed coordinates.\<close>

definition oneBasedSpan :: "Range \<Rightarrow> string" where
  "oneBasedSpan r =
     '' ['' @ oneBased (Line (Start r)) @ '':'' @ oneBased (Character (Start r)) @ ''-'' @
     oneBased (Line (End r)) @ '':'' @ oneBased (Character (End r)) @ '']''"

text \<open>Ranges for examples: an ordinary one, and one that ends at the largest wire value.\<close>

definition exampleRange :: Range where
  "exampleRange =
     \<lparr> Start = \<lparr> Line = 9, Character = 4 \<rparr>, End = \<lparr> Line = 11, Character = 1 \<rparr> \<rparr>"

definition maximalRange :: Range where
  "maximalRange =
     \<lparr> Start = \<lparr> Line = 4294967295, Character = 4294967295 \<rparr>,
       End = \<lparr> Line = 4294967295, Character = 4294967295 \<rparr> \<rparr>"

section \<open>A client for examples\<close>

text \<open>
  A server that knows one function \<open>f\<close>, found at two call sites in \<^verbatim>\<open>/a.go\<close> and
  defined in \<^verbatim>\<open>/b.go\<close> at wire position 9:4; every definition request answers with
  that location, twice. The state counts the calls.
\<close>

definition exampleDefinition :: Location where
  "exampleDefinition =
     \<lparr> URI = ''file:///b.go'',
       Range = \<lparr> Start = \<lparr> Line = 9, Character = 4 \<rparr>, End = \<lparr> Line = 11, Character = 1 \<rparr> \<rparr> \<rparr>"

definition exampleSymbols :: "WorkspaceSymbolResult list" where
  "exampleSymbols =
     [SymbolInformation ''f'' Function ''pkg''
        \<lparr> URI = ''file:///a.go'',
          Range = \<lparr> Start = \<lparr> Line = 2, Character = 0 \<rparr>, End = \<lparr> Line = 2, Character = 1 \<rparr> \<rparr> \<rparr>,
      OtherSymbol ''pkg.f''
        \<lparr> URI = ''file:///a.go'',
          Range = \<lparr> Start = \<lparr> Line = 7, Character = 3 \<rparr>, End = \<lparr> Line = 7, Character = 4 \<rparr> \<rparr> \<rparr>,
      SymbolInformation ''fmt'' Function '''' exampleDefinition]"

definition exampleClient :: "nat Client" where
  "exampleClient =
     \<lparr> OpenFile = (\<lambda>path n. (None, n + 1)),
       Symbol = (\<lambda>query n. (Inr (Or_Result_workspace_symbol (Inr exampleSymbols)), n + 1)),
       Definition = (\<lambda>params n.
         (Inr (Or_Result_textDocument_definition
            (Some (DefinitionValue (ManyLocations [exampleDefinition, exampleDefinition])))),
          n + 1)),
       GetFullDefinition = (\<lambda>loc n. ((''func f() {}'', loc, None), n + 1)),
       PrepareCallHierarchy = (\<lambda>params n. (Inr [], n + 1)),
       IncomingCalls = (\<lambda>item n. (Inr [], n + 1)),
       OutgoingCalls = (\<lambda>item n. (Inr [], n + 1)),
       UriPath = (\<lambda>uri. TrimPrefix uri ''file://''),
       TableKindMap = (\<lambda>k. if k = Function then ''Function'' else ''Unknown''),
       addLineNumbers = (\<lambda>text firstLine. formatInt firstLine @ ''|'' @ text),
       EqualFold = asciiEqualFold,
       SprintfVerbs = (\<lambda>name kind container finalLoc. []) \<rparr>"


text \<open>
  A server whose definition results carry two locations, the first of them twice, behind a
  client that cannot read the text of the second.
\<close>

definition otherDefinition :: Location where
  "otherDefinition =
     \<lparr> URI = ''file:///c.go'',
       Range = \<lparr> Start = \<lparr> Line = 0, Character = 5 \<rparr>, End = \<lparr> Line = 3, Character = 1 \<rparr> \<rparr> \<rparr>"

definition partlyClient :: "nat Client" where
  "partlyClient =
     exampleClient \<lparr>
       Definition := (\<lambda>params n.
         (Inr (Or_Result_textDocument_definition
            (Some (DefinitionValue
               (ManyLocations [exampleDefinition, otherDefinition, exampleDefinition])))),
          n + 1)),
       GetFullDefinition := (\<lambda>loc n.
         if loc = otherDefinition then (([], loc, Some (Error ''cannot read file'')), n + 1)
         else ((''func f() {}'', loc, None), n + 1)) \<rparr>"

text \<open>A client whose connection is closed: the symbol search itself fails.\<close>

definition unreachableClient :: "nat Client" where
  "unreachableClient =
     exampleClient \<lparr> Symbol := (\<lambda>query n. (Inl (Error ''connection closed''), n + 1)) \<rparr>"

text \<open>A client whose search answer cannot be decoded: \<^verbatim>\<open>Results()\<close> fails.\<close>

definition undecodableClient :: "nat Client" where
  "undecodableClient =
     exampleClient \<lparr> Symbol := (\<lambda>query n.
       (Inr (Or_Result_workspace_symbol (Inl (Error ''unknown symbol type''))), n + 1)) \<rparr>"

section \<open>Properties of the capability queries\<close>

lemma wrapper_case_iff:
  "(case p of None \<Rightarrow> False | Some w \<Rightarrow> Value w \<noteq> None) =
     (\<exists>w v. p = Some w \<and> Value w = Some v)"
  by (cases p) auto

text \<open>
  Claim C3. The compound definition query is true exactly when both the definition
  provider and the workspace-symbol provider are present, each with a non-null inner
  value; a missing wrapper or a null inner value on either side makes it false.
\<close>

theorem HasDefinitionSupport_iff:
  "HasDefinitionSupport caps =
     (\<exists>c d v w u. caps = Some c \<and>
        DefinitionProvider c = Some d \<and> Value d = Some v \<and>
        WorkspaceSymbolProvider c = Some w \<and> Value w = Some u)"
  by (cases caps) (auto simp: HasDefinitionSupport_def wrapper_case_iff)

theorem HasDefinitionSupport_iff_witness:
  "HasDefinitionSupport (Some (emptyCapabilities
      \<lparr> DefinitionProvider := Some \<lparr> Value = Some (AnyBool True) \<rparr>,
        WorkspaceSymbolProvider := Some \<lparr> Value = Some (AnyBool True) \<rparr> \<rparr>))
   \<and> \<not> HasDefinitionSupport (Some (emptyCapabilities
      \<lparr> DefinitionProvider := Some \<lparr> Value = Some (AnyBool True) \<rparr> \<rparr>))
   \<and> \<not> HasDefinitionSupport (Some (emptyCapabilities
      \<lparr> DefinitionProvider := Some \<lparr> Value = None \<rparr>,
        WorkspaceSymbolProvider := Some \<lparr> Value = Some (AnyBool True) \<rparr> \<rparr>))"
  by (simp add: HasDefinitionSupport_iff emptyCapabilities_def)

text \<open>
  Claim C10. Each of the ten capability queries answers false for the nil capabilities
  pointer; the nil case returns before any field is read.
\<close>

theorem nil_capabilities_unsupported:
  "\<not> HasDefinitionSupport None \<and> \<not> HasReferencesSupport None \<and> \<not> HasHoverSupport None \<and>
   \<not> HasDocumentSymbolSupport None \<and> \<not> HasCallHierarchySupport None \<and>
   \<not> HasWorkspaceSymbolSupport None \<and> \<not> HasRenameSupport None \<and>
   \<not> HasCodeActionSupport None \<and> \<not> HasSignatureHelpSupport None \<and>
   \<not> HasCodeLensSupport None"
  by (simp add: HasDefinitionSupport_def HasReferencesSupport_def HasHoverSupport_def
      HasDocumentSymbolSupport_def HasCallHierarchySupport_def HasWorkspaceSymbolSupport_def
      HasRenameSupport_def HasCodeActionSupport_def HasSignatureHelpSupport_def
      HasCodeLensSupport_def)

text \<open>
  Claim C2. For the plain optional fields (rename, code action, signature help, code
  lens) the query is true exactly when the field is non-nil, whatever the value is: a
  boolean (true or false) and an options object both count as present.
\<close>

theorem plain_optional_support:
  "HasRenameSupport caps = (\<exists>c v. caps = Some c \<and> RenameProvider c = Some v) \<and>
   HasCodeActionSupport caps = (\<exists>c v. caps = Some c \<and> CodeActionProvider c = Some v) \<and>
   HasSignatureHelpSupport caps = (\<exists>c v. caps = Some c \<and> SignatureHelpProvider c = Some v) \<and>
   HasCodeLensSupport caps = (\<exists>c v. caps = Some c \<and> CodeLensProvider c = Some v) \<and>
   HasRenameSupport (Some (c0 \<lparr> RenameProvider := Some (AnyBool b) \<rparr>)) \<and>
   HasRenameSupport (Some (c0 \<lparr> RenameProvider := Some (AnyObject kvs) \<rparr>)) \<and>
   HasCodeActionSupport (Some (c0 \<lparr> CodeActionProvider := Some (AnyBool b) \<rparr>)) \<and>
   HasCodeActionSupport (Some (c0 \<lparr> CodeActionProvider := Some (AnyObject kvs) \<rparr>)) \<and>
   HasSignatureHelpSupport (Some (c0 \<lparr> SignatureHelpProvider := Some sopts \<rparr>)) \<and>
   HasCodeLensSupport (Some (c0 \<lparr> CodeLensProvider := Some lopts \<rparr>))"
  by (cases caps)
     (auto simp: HasRenameSupport_def HasCodeActionSupport_def HasSignatureHelpSupport_def
        HasCodeLensSupport_def)

theorem plain_optional_support_witness:
  "HasRenameSupport (Some (emptyCapabilities \<lparr> RenameProvider := Some (AnyBool True) \<rparr>)) \<and>
   HasRenameSupport (Some (emptyCapabilities
      \<lparr> RenameProvider := Some (AnyObject [(''prepareProvider'', AnyBool True)]) \<rparr>)) \<and>
   \<not> HasRenameSupport (Some emptyCapabilities) \<and>
   \<not> HasCodeLensSupport (Some emptyCapabilities)"
  using plain_optional_support [where caps = "Some emptyCapabilities"
      and ?c0.0 = emptyCapabilities and b = True
      and kvs = "[(''prepareProvider'', AnyBool True)]"]
  by (simp add: emptyCapabilities_def)

text \<open>
  Claim C1 (as amended). For references, hover, document symbols, call hierarchy and
  workspace symbol the query is true exactly when the wrapper pointer is present and its
  inner value is non-null. The definition query is the compound one: it is false when the
  definition wrapper is absent or holds a null value, and it is true exactly when, in
  addition, the workspace-symbol wrapper is present with a non-null value.
\<close>

theorem nullable_wrapper_support:
  "HasReferencesSupport caps =
     (\<exists>c w v. caps = Some c \<and> ReferencesProvider c = Some w \<and> Value w = Some v) \<and>
   HasHoverSupport caps =
     (\<exists>c w v. caps = Some c \<and> HoverProvider c = Some w \<and> Value w = Some v) \<and>
   HasDocumentSymbolSupport caps =
     (\<exists>c w v. caps = Some c \<and> DocumentSymbolProvider c = Some w \<and> Value w = Some v) \<and>
   HasCallHierarchySupport caps =
     (\<exists>c w v. caps = Some c \<and> CallHierarchyProvider c = Some w \<and> Value w = Some v) \<and>
   HasWorkspaceSymbolSupport caps =
     (\<exists>c w v. caps = Some c \<and> WorkspaceSymbolProvider c = Some w \<and> Value w = Some v) \<and>
   HasDefinitionSupport caps =
     ((\<exists>c w v. caps = Some c \<and> DefinitionProvider c = Some w \<and> Value w = Some v) \<and>
      HasWorkspaceSymbolSupport caps)"
  by (cases caps)
     (auto simp: HasReferencesSupport_def HasHoverSupport_def HasDocumentSymbolSupport_def
        HasCallHierarchySupport_def HasWorkspaceSymbolSupport_def HasDefinitionSupport_def
        wrapper_case_iff)

theorem nullable_wrapper_support_witness:
  "HasHoverSupport (Some (emptyCapabilities
      \<lparr> HoverProvider := Some \<lparr> Value = Some (AnyBool True) \<rparr> \<rparr>)) \<and>
   \<not> HasHoverSupport (Some (emptyCapabilities \<lparr> HoverProvider := Some \<lparr> Value = None \<rparr> \<rparr>)) \<and>
   \<not> HasHoverSupport (Some emptyCapabilities)"
  using nullable_wrapper_support [of "Some (emptyCapabilities
      \<lparr> HoverProvider := Some \<lparr> Value = Some (AnyBool True) \<rparr> \<rparr>)"]
    nullable_wrapper_support [of "Some (emptyCapabilities
      \<lparr> HoverProvider := Some \<lparr> Value = None \<rparr> \<rparr>)"]
    nullable_wrapper_support [of "Some emptyCapabilities"]
  by (simp add: emptyCapabilities_def)

text \<open>
  The claim as first stated fails for the definition feature: with the definition wrapper
  present and holding \<open>true\<close>, but no workspace-symbol provider, the definition query
  answers false.
\<close>

theorem definition_wrapper_counterexample:
  "DefinitionProvider (emptyCapabilities
      \<lparr> DefinitionProvider := Some \<lparr> Value = Some (AnyBool True) \<rparr> \<rparr>)
     = Some \<lparr> Value = Some (AnyBool True) \<rparr> \<and>
   \<not> HasDefinitionSupport (Some (emptyCapabilities
      \<lparr> DefinitionProvider := Some \<lparr> Value = Some (AnyBool True) \<rparr> \<rparr>))"
  by (simp add: emptyCapabilities_def HasDefinitionSupport_def)

section \<open>Properties of the symbol matcher\<close>

lemma ContainsAny_dot_colon:
  "ContainsAny q ''.:'' = (CHR ''.'' \<in> set q \<or> CHR '':'' \<in> set q)"
  by (auto simp: ContainsAny_def list_ex_iff)

text \<open>
  Claim C5. The unqualified query \<open>method\<close> matches the candidates \<open>TestClass::method\<close>
  and \<open>TestClass.method\<close>, whatever their kind and container. A query that contains a
  scope separator character (a dot or a colon) matches a candidate exactly when the
  candidate's name equals the query; so \<open>TestClass::method\<close> matches itself and does not
  match \<open>method\<close>.
\<close>

theorem symbolMatches_qualification:
  "symbolMatches ef ''method'' ''TestClass::method'' k c \<and>
   symbolMatches ef ''method'' ''TestClass.method'' k c \<and>
   (ContainsAny q ''.:'' \<longrightarrow> symbolMatches ef q n k c = (n = q)) \<and>
   symbolMatches ef ''TestClass::method'' ''TestClass::method'' k c \<and>
   \<not> symbolMatches ef ''TestClass::method'' ''method'' k c"
  by (simp add: symbolMatches_def ContainsAny_dot_colon HasSuffix_def)

theorem symbolMatches_qualification_witness:
  "ContainsAny ''TestClass::method'' ''.:'' \<and>
   symbolMatches asciiEqualFold ''TestClass::method'' ''TestClass::method'' Method ''TestClass'' \<and>
   \<not> symbolMatches asciiEqualFold ''TestClass::method'' ''method'' Method ''TestClass'' \<and>
   \<not> symbolMatches asciiEqualFold ''TestClass::method'' ''OtherClass::method'' Method ''''"
  using symbolMatches_qualification [where q = "''TestClass::method''" and n = "''TestClass::method''"
      and ef = asciiEqualFold and k = Method and c = "''TestClass''"]
    symbolMatches_qualification [where q = "''TestClass::method''" and n = "''method''"
      and ef = asciiEqualFold and k = Method and c = "''TestClass''"]
    symbolMatches_qualification [where q = "''TestClass::method''" and n = "''OtherClass::method''"
      and ef = asciiEqualFold and k = Method and c = "''''"]
  by (simp add: ContainsAny_dot_colon)

text \<open>
  Claim C8. For a query without a dot or colon and a candidate of kind class, struct,
  interface or enum, the matcher accepts the candidate when \<^verbatim>\<open>strings.EqualFold\<close> holds
  of its name and the query, or when its name contains the query as a substring.
\<close>

theorem symbolMatches_type_like:
  assumes "\<not> ContainsAny query ''.:''"
    and "symbolKind = Class \<or> symbolKind = Struct \<or> symbolKind = Interface \<or> symbolKind = Enum"
    and "equalFold symbolName query \<or> Contains symbolName query"
  shows "symbolMatches equalFold query symbolName symbolKind containerName"
  using assms by (auto simp: symbolMatches_def)

lemma asciiEqualFold_example: "asciiEqualFold ''testclass'' ''TestClass''"
  by code_simp

theorem symbolMatches_type_like_witness:
  "\<not> ContainsAny ''TestClass'' ''.:'' \<and>
   asciiEqualFold ''testclass'' ''TestClass'' \<and>
   symbolMatches asciiEqualFold ''TestClass'' ''testclass'' Class '''' \<and>
   Contains ''vector<int>'' ''vector'' \<and>
   symbolMatches asciiEqualFold ''vector'' ''vector<int>'' Struct ''''"
proof -
  have q1: "\<not> ContainsAny ''TestClass'' ''.:''" and q2: "\<not> ContainsAny ''vector'' ''.:''"
    by (simp_all add: ContainsAny_dot_colon)
  have e: "asciiEqualFold ''testclass'' ''TestClass''"
    by (rule asciiEqualFold_example)
  have s: "Contains ''vector<int>'' ''vector''"
    by (simp add: HasPrefix_def)
  have m1: "symbolMatches asciiEqualFold ''TestClass'' ''testclass'' Class ''''"
    using symbolMatches_type_like [OF q1, of Class asciiEqualFold "''testclass''" "''''"] e
    by simp
  have m2: "symbolMatches asciiEqualFold ''vector'' ''vector<int>'' Struct ''''"
    using symbolMatches_type_like [OF q2, of Struct asciiEqualFold "''vector<int>''" "''''"] s
    by simp
  show ?thesis using q1 e m1 s m2 by simp
qed

section \<open>Properties of the definition lookup\<close>

subsection \<open>Decimal numerals\<close>








subsection \<open>Location keys\<close>



subsection \<open>The two loops of ReadDefinition\<close>


































section \<open>Properties of the coordinate translation\<close>

lemma wire_coordinate:
  assumes "oneIndexed n"
  shows "uint (ucast (n - 1) :: uint32) = sint n - 1"
proof -
  have lo: "1 \<le> sint n" and hi: "sint n \<le> 4294967296"
    using assms by (simp_all add: oneIndexed_def)
  have "uint n = take_bit 64 (sint n)"
    using uint_sint [of n] by simp
  also have "\<dots> = sint n"
    using lo hi by (simp add: take_bit_int_eq_self)
  finally have u: "sint n = uint n" by simp
  have "uint (1 :: go_int) \<le> uint n" using lo u by simp
  then have "uint (n - 1) = uint n - uint (1 :: go_int)"
    by (simp only: uint_sub_lem)
  then have "uint (n - 1) = sint n - 1"
    using u by simp
  then have "uint (ucast (n - 1) :: uint32) = take_bit 32 (sint n - 1)"
    by (simp add: unsigned_ucast_eq)
  also have "\<dots> = sint n - 1"
    using lo hi by (simp add: take_bit_int_eq_self)
  finally show ?thesis .
qed

lemma shown_coordinate:
  assumes "belowMax x"
  shows "formatDecimal (unat (x + 1)) = oneBased x"
proof -
  have "unat (x + 1) = unat x + 1"
    using assms by (simp add: belowMax_def unat_add_lem [THEN iffD1])
  then show ?thesis by (simp add: oneBased_def)
qed

lemma callSiteLabels_oneBased:
  "list_all (\<lambda>r. positionBelowMax (Start r)) rs \<Longrightarrow> callSiteLabels rs = map oneBasedLabel rs"
  by (induction rs)
     (simp_all add: callSiteLabels_def oneBasedLabel_def positionBelowMax_def shown_coordinate)

lemma callHierarchyHeader_oneBased:
  "belowMax (Line (Start (ItemRange item))) \<Longrightarrow>
   callHierarchyHeader title item =
     title @ Name item @ (if Detail item \<noteq> [] then '' ('' @ Detail item @ '')'' else []) @
     '' at '' @ TrimPrefix (ItemURI item) ''file://'' @ '':'' @
     oneBased (Line (Start (ItemRange item))) @ newline @ newline"
  by (simp add: callHierarchyHeader_def shown_coordinate)

lemma formatIncomingCalls_oneBased:
  "belowMax (Line (Start (ItemRange (From call)))) \<Longrightarrow>
   list_all (\<lambda>r. positionBelowMax (Start r)) (FromRanges call) \<Longrightarrow>
   formatIncomingCalls i (call # calls) =
     formatDecimal (i + 1) @ ''. '' @ Name (From call) @
     (if Detail (From call) \<noteq> [] then '' ('' @ Detail (From call) @ '')'' else []) @
     '' at '' @ TrimPrefix (ItemURI (From call)) ''file://'' @ '':'' @
     oneBased (Line (Start (ItemRange (From call)))) @ newline @
     (if FromRanges call \<noteq> []
      then ''   Call sites: '' @ Join (map oneBasedLabel (FromRanges call)) '', '' @ newline
      else []) @
     formatIncomingCalls (i + 1) calls"
  by (simp add: shown_coordinate callSiteLabels_oneBased Let_def)

lemma formatOutgoingCalls_oneBased:
  "belowMax (Line (Start (ItemRange (To call)))) \<Longrightarrow>
   list_all (\<lambda>r. positionBelowMax (Start r)) (OutFromRanges call) \<Longrightarrow>
   formatOutgoingCalls i (call # calls) =
     formatDecimal (i + 1) @ ''. '' @ Name (To call) @
     (if Detail (To call) \<noteq> [] then '' ('' @ Detail (To call) @ '')'' else []) @
     '' at '' @ TrimPrefix (ItemURI (To call)) ''file://'' @ '':'' @
     oneBased (Line (Start (ItemRange (To call)))) @ newline @
     (if OutFromRanges call \<noteq> []
      then ''   Called at: '' @ Join (map oneBasedLabel (OutFromRanges call)) '', '' @ newline
      else []) @
     formatOutgoingCalls (i + 1) calls"
  by (simp add: shown_coordinate callSiteLabels_oneBased Let_def)

lemma formatDocumentSymbol_oneBased:
  "rangeBelowMax rng \<Longrightarrow>
   formatDocumentSymbol kindMap (DocumentSymbol name detail kind rng children) depth =
     (if depth > 0 then Repeat barIndent (depth - 1) @ branchIndent
      else Repeat barIndent depth) @
     kindMap kind @ '' '' @ name @
     (if detail \<noteq> [] then '' ('' @ detail @ '')'' else []) @
     oneBasedSpan rng @ newline @
     concat (map (\<lambda>child. formatDocumentSymbol kindMap child (depth + 1)) children)"
  by (simp add: shown_coordinate rangeBelowMax_def positionBelowMax_def oneBasedSpan_def Let_def)

lemma formatSymbolInformation_oneBased:
  "rangeBelowMax (Range (SymLocation symbol)) \<Longrightarrow>
   formatSymbolInformation kindMap symbol =
     bullet @ kindMap (SymKind symbol) @ '' '' @ SymName symbol @
     (if ContainerName symbol \<noteq> [] then '' (in '' @ ContainerName symbol @ '')'' else []) @
     oneBasedSpan (Range (SymLocation symbol)) @ newline"
  by (simp add: formatSymbolInformation_def shown_coordinate rangeBelowMax_def
      positionBelowMax_def oneBasedSpan_def Let_def)

lemma locationInfo_oneBased:
  "rangeBelowMax (Range finalLoc) \<Longrightarrow> CHR ''%'' \<notin> set kind \<Longrightarrow> CHR ''%'' \<notin> set container \<Longrightarrow>
   locationInfo sprintfVerbs name kind container finalLoc =
     ''Symbol: '' @ name @ newline @
     ''File: '' @ TrimPrefix (URI finalLoc) ''file://'' @ newline @
     kind @ container @
     ''Range: L'' @ oneBased (Line (Start (Range finalLoc))) @
     '':C'' @ oneBased (Character (Start (Range finalLoc))) @
     '' - L'' @ oneBased (Line (End (Range finalLoc))) @
     '':C'' @ oneBased (Character (End (Range finalLoc))) @ newline @ newline"
  by (simp add: locationInfo_def shown_coordinate rangeBelowMax_def positionBelowMax_def)

lemma request_positions:
  assumes "oneIndexed line" and "oneIndexed column"
  shows "uint (Line (Position (GetCallHierarchy_params filePath line column))) = sint line - 1"
    and "uint (Character (Position (GetCallHierarchy_params filePath line column))) = sint column - 1"
    and "uint (Line (Position (GetSignatureHelp_params filePath line column))) = sint line - 1"
    and "uint (Character (Position (GetSignatureHelp_params filePath line column))) = sint column - 1"
    and "uint (Line (Position (GetCompletions_params filePath line column))) = sint line - 1"
    and "uint (Character (Position (GetCompletions_params filePath line column))) = sint column - 1"
  using assms
  by (simp_all add: GetCallHierarchy_params_def GetSignatureHelp_params_def
      GetCompletions_params_def wire_coordinate)

lemma request_range:
  assumes "oneIndexed startLine" and "oneIndexed startColumn"
    and "oneIndexed endLine" and "oneIndexed endColumn"
  shows "uint (Line (Start (GetCodeActions_range startLine startColumn endLine endColumn))) = sint startLine - 1"
    and "uint (Character (Start (GetCodeActions_range startLine startColumn endLine endColumn))) = sint startColumn - 1"
    and "uint (Line (End (GetCodeActions_range startLine startColumn endLine endColumn))) = sint endLine - 1"
    and "uint (Character (End (GetCodeActions_range startLine startColumn endLine endColumn))) = sint endColumn - 1"
  using assms by (simp_all add: GetCodeActions_range_def wire_coordinate)

lemma request_example:
  "Position (GetCallHierarchy_params filePath 5 3) = \<lparr> Line = 4, Character = 2 \<rparr>"
  "Position (GetSignatureHelp_params filePath 5 3) = \<lparr> Line = 4, Character = 2 \<rparr>"
  "Position (GetCompletions_params filePath 5 3) = \<lparr> Line = 4, Character = 2 \<rparr>"
  "GetCodeActions_range 5 3 5 3 =
     \<lparr> Start = \<lparr> Line = 4, Character = 2 \<rparr>, End = \<lparr> Line = 4, Character = 2 \<rparr> \<rparr>"
  by (simp_all add: GetCallHierarchy_params_def GetSignatureHelp_params_def
      GetCompletions_params_def GetCodeActions_range_def)

text \<open>
  Claim C4 (as amended). Call hierarchy, signature help, completions and code actions
  build the wire position as \<^verbatim>\<open>uint32(line - 1)\<close> and \<^verbatim>\<open>uint32(column - 1)\<close>: for a
  one-indexed line and column between 1 and \<open>2^32\<close> the wire values are the line minus
  one and the column minus one, and line 5, column 3 becomes line 4, column 2. Every wire
  line and column that the tools print (call sites, the header and the entries of the call
  hierarchy, the two symbol formatters, the header of a definition) is printed as the
  value plus one when the value is below the largest \<^verbatim>\<open>uint32\<close>; for the header of a
  definition this needs a kind text and a container name free of percent signs.
\<close>

theorem coordinate_translation:
  "(oneIndexed line \<and> oneIndexed column \<longrightarrow>
      uint (Line (Position (GetCallHierarchy_params filePath line column))) = sint line - 1 \<and>
      uint (Character (Position (GetCallHierarchy_params filePath line column))) = sint column - 1 \<and>
      uint (Line (Position (GetSignatureHelp_params filePath line column))) = sint line - 1 \<and>
      uint (Character (Position (GetSignatureHelp_params filePath line column))) = sint column - 1 \<and>
      uint (Line (Position (GetCompletions_params filePath line column))) = sint line - 1 \<and>
      uint (Character (Position (GetCompletions_params filePath line column))) = sint column - 1) \<and>
   (oneIndexed startLine \<and> oneIndexed startColumn \<and> oneIndexed endLine \<and> oneIndexed endColumn \<longrightarrow>
      uint (Line (Start (GetCodeActions_range startLine startColumn endLine endColumn))) =
        sint startLine - 1 \<and>
      uint (Character (Start (GetCodeActions_range startLine startColumn endLine endColumn))) =
        sint startColumn - 1 \<and>
      uint (Line (End (GetCodeActions_range startLine startColumn endLine endColumn))) =
        sint endLine - 1 \<and>
      uint (Character (End (GetCodeActions_range startLine startColumn endLine endColumn))) =
        sint endColumn - 1) \<and>
   (Position (GetCallHierarchy_params filePath 5 3) = \<lparr> Line = 4, Character = 2 \<rparr> \<and>
    Position (GetSignatureHelp_params filePath 5 3) = \<lparr> Line = 4, Character = 2 \<rparr> \<and>
    Position (GetCompletions_params filePath 5 3) = \<lparr> Line = 4, Character = 2 \<rparr> \<and>
    GetCodeActions_range 5 3 5 3 =
      \<lparr> Start = \<lparr> Line = 4, Character = 2 \<rparr>, End = \<lparr> Line = 4, Character = 2 \<rparr> \<rparr>) \<and>
   (list_all (\<lambda>r. positionBelowMax (Start r)) rs \<longrightarrow>
      callSiteLabels rs = map oneBasedLabel rs) \<and>
   (belowMax (Line (Start (ItemRange item))) \<longrightarrow>
      callHierarchyHeader title item =
        title @ Name item @ (if Detail item \<noteq> [] then '' ('' @ Detail item @ '')'' else []) @
        '' at '' @ TrimPrefix (ItemURI item) ''file://'' @ '':'' @
        oneBased (Line (Start (ItemRange item))) @ newline @ newline) \<and>
   (belowMax (Line (Start (ItemRange (From incoming)))) \<and>
    list_all (\<lambda>r. positionBelowMax (Start r)) (FromRanges incoming) \<longrightarrow>
      formatIncomingCalls i (incoming # incomingCalls) =
        formatDecimal (i + 1) @ ''. '' @ Name (From incoming) @
        (if Detail (From incoming) \<noteq> [] then '' ('' @ Detail (From incoming) @ '')'' else []) @
        '' at '' @ TrimPrefix (ItemURI (From incoming)) ''file://'' @ '':'' @
        oneBased (Line (Start (ItemRange (From incoming)))) @ newline @
        (if FromRanges incoming \<noteq> []
         then ''   Call sites: '' @ Join (map oneBasedLabel (FromRanges incoming)) '', '' @ newline
         else []) @
        formatIncomingCalls (i + 1) incomingCalls) \<and>
   (belowMax (Line (Start (ItemRange (To outgoing)))) \<and>
    list_all (\<lambda>r. positionBelowMax (Start r)) (OutFromRanges outgoing) \<longrightarrow>
      formatOutgoingCalls i (outgoing # outgoingCalls) =
        formatDecimal (i + 1) @ ''. '' @ Name (To outgoing) @
        (if Detail (To outgoing) \<noteq> [] then '' ('' @ Detail (To outgoing) @ '')'' else []) @
        '' at '' @ TrimPrefix (ItemURI (To outgoing)) ''file://'' @ '':'' @
        oneBased (Line (Start (ItemRange (To outgoing)))) @ newline @
        (if OutFromRanges outgoing \<noteq> []
         then ''   Called at: '' @ Join (map oneBasedLabel (OutFromRanges outgoing)) '', '' @ newline
         else []) @
        formatOutgoingCalls (i + 1) outgoingCalls) \<and>
   (rangeBelowMax rng \<longrightarrow>
      formatDocumentSymbol kindMap (DocumentSymbol name detail kind rng children) depth =
        (if depth > 0 then Repeat barIndent (depth - 1) @ branchIndent
         else Repeat barIndent depth) @
        kindMap kind @ '' '' @ name @
        (if detail \<noteq> [] then '' ('' @ detail @ '')'' else []) @
        oneBasedSpan rng @ newline @
        concat (map (\<lambda>child. formatDocumentSymbol kindMap child (depth + 1)) children)) \<and>
   (rangeBelowMax (Range (SymLocation symbol)) \<longrightarrow>
      formatSymbolInformation kindMap symbol =
        bullet @ kindMap (SymKind symbol) @ '' '' @ SymName symbol @
        (if ContainerName symbol \<noteq> [] then '' (in '' @ ContainerName symbol @ '')'' else []) @
        oneBasedSpan (Range (SymLocation symbol)) @ newline) \<and>
   (rangeBelowMax (Range finalLoc) \<and> CHR ''%'' \<notin> set kindText \<and> CHR ''%'' \<notin> set container \<longrightarrow>
      locationInfo sprintfVerbs symName kindText container finalLoc =
        ''Symbol: '' @ symName @ newline @
        ''File: '' @ TrimPrefix (URI finalLoc) ''file://'' @ newline @
        kindText @ container @
        ''Range: L'' @ oneBased (Line (Start (Range finalLoc))) @
        '':C'' @ oneBased (Character (Start (Range finalLoc))) @
        '' - L'' @ oneBased (Line (End (Range finalLoc))) @
        '':C'' @ oneBased (Character (End (Range finalLoc))) @ newline @ newline)"
proof (intro conjI impI)
  assume "oneIndexed line \<and> oneIndexed column"
  then have l: "oneIndexed line" and c: "oneIndexed column" by simp_all
  show "uint (Line (Position (GetCallHierarchy_params filePath line column))) = sint line - 1"
    and "uint (Character (Position (GetCallHierarchy_params filePath line column))) = sint column - 1"
    and "uint (Line (Position (GetSignatureHelp_params filePath line column))) = sint line - 1"
    and "uint (Character (Position (GetSignatureHelp_params filePath line column))) = sint column - 1"
    and "uint (Line (Position (GetCompletions_params filePath line column))) = sint line - 1"
    and "uint (Character (Position (GetCompletions_params filePath line column))) = sint column - 1"
    by (rule request_positions [OF l c])+
next
  assume "oneIndexed startLine \<and> oneIndexed startColumn \<and> oneIndexed endLine \<and> oneIndexed endColumn"
  then have a: "oneIndexed startLine" and b: "oneIndexed startColumn"
    and c: "oneIndexed endLine" and d: "oneIndexed endColumn" by simp_all
  show "uint (Line (Start (GetCodeActions_range startLine startColumn endLine endColumn))) =
        sint startLine - 1"
    and "uint (Character (Start (GetCodeActions_range startLine startColumn endLine endColumn))) =
        sint startColumn - 1"
    and "uint (Line (End (GetCodeActions_range startLine startColumn endLine endColumn))) =
        sint endLine - 1"
    and "uint (Character (End (GetCodeActions_range startLine startColumn endLine endColumn))) =
        sint endColumn - 1"
    by (rule request_range [OF a b c d])+
next
  show "Position (GetCallHierarchy_params filePath 5 3) = \<lparr> Line = 4, Character = 2 \<rparr>"
    and "Position (GetSignatureHelp_params filePath 5 3) = \<lparr> Line = 4, Character = 2 \<rparr>"
    and "Position (GetCompletions_params filePath 5 3) = \<lparr> Line = 4, Character = 2 \<rparr>"
    and "GetCodeActions_range 5 3 5 3 =
      \<lparr> Start = \<lparr> Line = 4, Character = 2 \<rparr>, End = \<lparr> Line = 4, Character = 2 \<rparr> \<rparr>"
    by (rule request_example)+
next
  assume "list_all (\<lambda>r. positionBelowMax (Start r)) rs"
  then show "callSiteLabels rs = map oneBasedLabel rs"
    by (rule callSiteLabels_oneBased)
next
  assume "belowMax (Line (Start (ItemRange item)))"
  then show "callHierarchyHeader title item =
        title @ Name item @ (if Detail item \<noteq> [] then '' ('' @ Detail item @ '')'' else []) @
        '' at '' @ TrimPrefix (ItemURI item) ''file://'' @ '':'' @
        oneBased (Line (Start (ItemRange item))) @ newline @ newline"
    by (rule callHierarchyHeader_oneBased)
next
  assume "belowMax (Line (Start (ItemRange (From incoming)))) \<and>
    list_all (\<lambda>r. positionBelowMax (Start r)) (FromRanges incoming)"
  then show "formatIncomingCalls i (incoming # incomingCalls) =
        formatDecimal (i + 1) @ ''. '' @ Name (From incoming) @
        (if Detail (From incoming) \<noteq> [] then '' ('' @ Detail (From incoming) @ '')'' else []) @
        '' at '' @ TrimPrefix (ItemURI (From incoming)) ''file://'' @ '':'' @
        oneBased (Line (Start (ItemRange (From incoming)))) @ newline @
        (if FromRanges incoming \<noteq> []
         then ''   Call sites: '' @ Join (map oneBasedLabel (FromRanges incoming)) '', '' @ newline
         else []) @
        formatIncomingCalls (i + 1) incomingCalls"
    using formatIncomingCalls_oneBased [of incoming i incomingCalls] by blast
next
  assume "belowMax (Line (Start (ItemRange (To outgoing)))) \<and>
    list_all (\<lambda>r. positionBelowMax (Start r)) (OutFromRanges outgoing)"
  then show "formatOutgoingCalls i (outgoing # outgoingCalls) =
        formatDecimal (i + 1) @ ''. '' @ Name (To outgoing) @
        (if Detail (To outgoing) \<noteq> [] then '' ('' @ Detail (To outgoing) @ '')'' else []) @
        '' at '' @ TrimPrefix (ItemURI (To outgoing)) ''file://'' @ '':'' @
        oneBased (Line (Start (ItemRange (To outgoing)))) @ newline @
        (if OutFromRanges outgoing \<noteq> []
         then ''   Called at: '' @ Join (map oneBasedLabel (OutFromRanges outgoing)) '', '' @ newline
         else []) @
        formatOutgoingCalls (i + 1) outgoingCalls"
    using formatOutgoingCalls_oneBased [of outgoing i outgoingCalls] by blast
next
  assume "rangeBelowMax rng"
  then show "formatDocumentSymbol kindMap (DocumentSymbol name detail kind rng children) depth =
        (if depth > 0 then Repeat barIndent (depth - 1) @ branchIndent
         else Repeat barIndent depth) @
        kindMap kind @ '' '' @ name @
        (if detail \<noteq> [] then '' ('' @ detail @ '')'' else []) @
        oneBasedSpan rng @ newline @
        concat (map (\<lambda>child. formatDocumentSymbol kindMap child (depth + 1)) children)"
    by (rule formatDocumentSymbol_oneBased)
next
  assume "rangeBelowMax (Range (SymLocation symbol))"
  then show "formatSymbolInformation kindMap symbol =
        bullet @ kindMap (SymKind symbol) @ '' '' @ SymName symbol @
        (if ContainerName symbol \<noteq> [] then '' (in '' @ ContainerName symbol @ '')'' else []) @
        oneBasedSpan (Range (SymLocation symbol)) @ newline"
    by (rule formatSymbolInformation_oneBased)
next
  assume "rangeBelowMax (Range finalLoc) \<and> CHR ''%'' \<notin> set kindText \<and> CHR ''%'' \<notin> set container"
  then show "locationInfo sprintfVerbs symName kindText container finalLoc =
        ''Symbol: '' @ symName @ newline @
        ''File: '' @ TrimPrefix (URI finalLoc) ''file://'' @ newline @
        kindText @ container @
        ''Range: L'' @ oneBased (Line (Start (Range finalLoc))) @
        '':C'' @ oneBased (Character (Start (Range finalLoc))) @
        '' - L'' @ oneBased (Line (End (Range finalLoc))) @
        '':C'' @ oneBased (Character (End (Range finalLoc))) @ newline @ newline"
    using locationInfo_oneBased [of finalLoc kindText container sprintfVerbs symName] by blast
qed

lemma oneIndexed_example: "oneIndexed 5" "oneIndexed 3"
  by (simp_all add: oneIndexed_def)

lemma exampleRange_belowMax: "list_all (\<lambda>r. positionBelowMax (Start r)) [exampleRange]"
  by (simp add: positionBelowMax_def belowMax_def exampleRange_def)

lemma exampleRange_label: "map oneBasedLabel [exampleRange] = [''L10:C5'']"
  by code_simp

theorem coordinate_translation_witness:
  "oneIndexed 5 \<and> oneIndexed 3 \<and>
   uint (Line (Position (GetCallHierarchy_params ''/a.go'' 5 3))) = 4 \<and>
   uint (Character (Position (GetCallHierarchy_params ''/a.go'' 5 3))) = 2 \<and>
   list_all (\<lambda>r. positionBelowMax (Start r)) [exampleRange] \<and>
   callSiteLabels [exampleRange] = [''L10:C5'']"
proof -
  have h: "oneIndexed 5 \<and> oneIndexed 3"
    using oneIndexed_example by simp
  have p: "uint (Line (Position (GetCallHierarchy_params ''/a.go'' 5 3))) = sint (5 :: go_int) - 1"
    and q: "uint (Character (Position (GetCallHierarchy_params ''/a.go'' 5 3))) = sint (3 :: go_int) - 1"
    using coordinate_translation [THEN conjunct1, THEN mp, OF h, of "''/a.go''"] by simp_all
  have r: "callSiteLabels [exampleRange] = map oneBasedLabel [exampleRange]"
    using coordinate_translation
      [THEN conjunct2, THEN conjunct2, THEN conjunct2, THEN conjunct1, THEN mp,
       OF exampleRange_belowMax] .
  show ?thesis
    using p q r oneIndexed_example exampleRange_belowMax exampleRange_label by simp
qed

text \<open>
  The claim as first stated has no bounds. The one-indexed line \<open>2^32 + 1\<close> is sent as
  wire line 0, not as \<open>2^32\<close>, because the conversion keeps the low 32 bits; and the
  wire value \<open>2^32 - 1\<close> is printed as 0, because the addition is done in \<^verbatim>\<open>uint32\<close>.
\<close>

theorem coordinate_translation_counterexample:
  "1 \<le> sint (4294967297 :: go_int) \<and>
   Position (GetCallHierarchy_params ''/a.go'' 4294967297 1) = \<lparr> Line = 0, Character = 0 \<rparr> \<and>
   callSiteLabels [maximalRange] = [''L0:C0'']"
  by code_simp

end
